theory Spec2Isabelle
  imports Main "HOL-Library.Word"
begin

section \<open>Chat messages\<close>

text \<open>
  The \<^verbatim>\<open>ChatMessage\<close> objects of the chat widget, with the fields the component reads
  and writes. \<^verbatim>\<open>id\<close> and \<^verbatim>\<open>type\<close> are renamed \<open>msg_id\<close> and \<open>msg_type\<close>. The
  message kind stays a string, as the source compares it with \<^verbatim>\<open>===\<close>. \<open>createdAt\<close> is
  the value of \<^verbatim>\<open>new Date(m.createdAt).getTime()\<close>, the milliseconds since the epoch of
  a well-formed ISO timestamp: every use of the field in the code modelled here goes
  through that call. Timestamps that do not parse (\<^verbatim>\<open>NaN\<close>) are outside the model.
\<close>

datatype msg_status = PENDING | SUCCESS | ERROR

text \<open>
  Text that the code trims is a JavaScript string as it is: a sequence of UTF-16 code
  units. The message content, the draft and the text of an edit have this type. Ids,
  names and the other strings are only compared and tested for emptiness, and stay
  \<open>string\<close>.
\<close>

type_synonym code_unit = "16 word"

type_synonym js_text = "code_unit list"

record chat_message =
  msg_id :: string
  tempId :: "string option"
  courseId :: string
  content :: js_text
  msg_type :: string
  senderId :: string
  senderName :: string
  senderThumbnailUrl :: "string option"
  senderRole :: string
  createdAt :: int
  status :: "msg_status option"

section \<open>The reconciler: \<^verbatim>\<open>allMessages\<close>\<close>

text \<open>
  Lines 134-142: the history window, with every live message whose id is non-empty and
  not an id of the history window put in front of it (\<^verbatim>\<open>unshift\<close>), one after the other.
  The set of known ids is computed once, from the history window alone.
\<close>

definition combinedMessages :: "chat_message list \<Rightarrow> chat_message list \<Rightarrow> chat_message list" where
  "combinedMessages loaded ws =
     foldl (\<lambda>combined wsMsg.
              if msg_id wsMsg \<noteq> [] \<and> msg_id wsMsg \<notin> set (map msg_id loaded)
              then wsMsg # combined else combined)
           loaded ws"

text \<open>Lines 151-169: the callback of \<^verbatim>\<open>combinedMessages.some\<close>.\<close>

definition isRealMessageOf :: "chat_message \<Rightarrow> chat_message \<Rightarrow> bool" where
  "isRealMessageOf pending msg =
     (if msg_id msg = msg_id pending then True
      else if content msg = content pending \<and> senderId msg = senderId pending
              \<and> msg_type msg = msg_type pending
           then \<bar>createdAt msg - createdAt pending\<bar> < 10000
      else False)"

definition hasRealMessage :: "chat_message list \<Rightarrow> chat_message \<Rightarrow> bool" where
  "hasRealMessage combined pending = list_ex (isRealMessageOf pending) combined"

text \<open>Lines 145-174: the outbox entries that stay in the view.\<close>

definition pendingWithoutDuplicates :: "chat_message list \<Rightarrow> chat_message list \<Rightarrow> chat_message list" where
  "pendingWithoutDuplicates combined pendings =
     filter (\<lambda>pending. if status pending = Some SUCCESS
                        then \<not> hasRealMessage combined pending else True)
            pendings"

text \<open>Lines 177-180: both parts, without the locally deleted ids.\<close>

definition allCombined ::
  "chat_message list \<Rightarrow> chat_message list \<Rightarrow> chat_message list \<Rightarrow> string set \<Rightarrow> chat_message list" where
  "allCombined loaded ws pendings deleted =
     filter (\<lambda>msg. msg_id msg \<notin> deleted)
       (combinedMessages loaded ws @ pendingWithoutDuplicates (combinedMessages loaded ws) pendings)"

text \<open>
  \<^verbatim>\<open>Array.prototype.sort\<close> with a comparator: a negative result puts the first argument
  first. The sort is stable, and for a comparator that is a consistent order (as the one
  below is on integer timestamps) its result is determined; insertion from the right
  computes it.
\<close>

fun insert_sorted :: "('a \<Rightarrow> 'a \<Rightarrow> int) \<Rightarrow> 'a \<Rightarrow> 'a list \<Rightarrow> 'a list" where
  "insert_sorted cmp x [] = [x]"
| "insert_sorted cmp x (y # ys) =
     (if cmp x y \<le> 0 then x # y # ys else y # insert_sorted cmp x ys)"

definition js_sort :: "('a \<Rightarrow> 'a \<Rightarrow> int) \<Rightarrow> 'a list \<Rightarrow> 'a list" where
  "js_sort cmp xs = foldr (insert_sorted cmp) xs []"

text \<open>Lines 183-184: the comparator.\<close>

definition byCreatedAtDesc :: "chat_message \<Rightarrow> chat_message \<Rightarrow> int" where
  "byCreatedAtDesc a b = createdAt b - createdAt a"

definition allMessages ::
  "chat_message list \<Rightarrow> chat_message list \<Rightarrow> chat_message list \<Rightarrow> string set \<Rightarrow> chat_message list" where
  "allMessages loaded ws pendings deleted =
     js_sort byCreatedAtDesc (allCombined loaded ws pendings deleted)"

section \<open>The chat component\<close>

text \<open>
  The state of the \<^verbatim>\<open>Chat\<close> component: its \<^verbatim>\<open>useState\<close> cells, and the two arrays it
  reads from its hooks, the history window \<open>loadedMessages\<close> (\<^verbatim>\<open>useChatInfiniteScroll\<close>)
  and the live buffer \<open>wsMessages\<close> (\<^verbatim>\<open>useChatWebSocket\<close>).
\<close>

record chat_state =
  messageText :: js_text
  editingMessageId :: "string option"
  editingText :: js_text
  pendingMessages :: "chat_message list"
  showEmojiPicker :: bool
  deletingMessages :: "string set"
  updatingMessages :: "string set"
  deletedMessages :: "string set"
  shouldScrollToBottom :: bool
  isInitializing :: bool
  loadedMessages :: "chat_message list"
  wsMessages :: "chat_message list"

text \<open>The props and the session the handlers close over.\<close>

record chat_env =
  env_courseId :: string
  currentUserId :: string
  userName :: "string option"
  userThumbnailUrl :: "string option"

text \<open>What a handler does outside the component: the remote calls and the toasts.\<close>

datatype chat_effect =
    SendRequest string js_text string string
  | UpdateRequest string string string js_text
  | DeleteRequest string string
  | ToastError string
  | FocusTextarea

text \<open>The outcome of an awaited remote call (\<^verbatim>\<open>.unwrap()\<close> returns or throws).\<close>

datatype 'a remote = Resolved 'a | Rejected

text \<open>The view the component renders from its state.\<close>

definition allMessages_of :: "chat_state \<Rightarrow> chat_message list" where
  "allMessages_of s =
     allMessages (loadedMessages s) (wsMessages s) (pendingMessages s) (deletedMessages s)"

subsection \<open>Strings\<close>

text \<open>
  \<^verbatim>\<open>String.prototype.trim\<close> removes the white space and the line terminators of
  ECMAScript from both ends: tab, line feed, vertical tab, form feed, carriage return,
  space, U+00A0, U+1680, U+2000 to U+200A, U+2028, U+2029, U+202F, U+205F, U+3000 and
  U+FEFF. All of them are single code units.
\<close>

definition js_whitespace :: "code_unit \<Rightarrow> bool" where
  "js_whitespace c =
     (c = 0x0009 \<or> c = 0x000A \<or> c = 0x000B \<or> c = 0x000C \<or> c = 0x000D \<or> c = 0x0020
      \<or> c = 0x00A0 \<or> c = 0x1680 \<or> (0x2000 \<le> c \<and> c \<le> 0x200A)
      \<or> c = 0x2028 \<or> c = 0x2029 \<or> c = 0x202F \<or> c = 0x205F \<or> c = 0x3000
      \<or> c = 0xFEFF)"

definition trim :: "js_text \<Rightarrow> js_text" where
  "trim s = rev (dropWhile js_whitespace (rev (dropWhile js_whitespace s)))"

subsection \<open>The history store and the live buffer\<close>

text \<open>
  A partial message (\<^verbatim>\<open>Partial<ChatMessage>\<close>): the fields an update carries.
\<close>

record message_patch =
  p_id :: "string option"
  p_tempId :: "string option"
  p_courseId :: "string option"
  p_content :: "js_text option"
  p_type :: "string option"
  p_senderId :: "string option"
  p_senderName :: "string option"
  p_senderThumbnailUrl :: "string option"
  p_senderRole :: "string option"
  p_createdAt :: "int option"
  p_status :: "msg_status option"

definition no_patch :: message_patch where
  "no_patch = \<lparr>p_id = None, p_tempId = None, p_courseId = None, p_content = None,
     p_type = None, p_senderId = None, p_senderName = None, p_senderThumbnailUrl = None,
     p_senderRole = None, p_createdAt = None, p_status = None\<rparr>"

text \<open>The object literal \<^verbatim>\<open>{ content: text }\<close> of line 356.\<close>

definition content_patch :: "js_text \<Rightarrow> message_patch" where
  "content_patch text = no_patch\<lparr>p_content := Some text\<rparr>"

text \<open>A whole message used as an update, as \<^verbatim>\<open>result.data\<close> is on line 365.\<close>

definition patch_of_message :: "chat_message \<Rightarrow> message_patch" where
  "patch_of_message m = \<lparr>p_id = Some (msg_id m), p_tempId = tempId m,
     p_courseId = Some (courseId m), p_content = Some (content m),
     p_type = Some (msg_type m), p_senderId = Some (senderId m),
     p_senderName = Some (senderName m), p_senderThumbnailUrl = senderThumbnailUrl m,
     p_senderRole = Some (senderRole m), p_createdAt = Some (createdAt m),
     p_status = status m\<rparr>"

definition or_else :: "'a option \<Rightarrow> 'a \<Rightarrow> 'a" where
  "or_else v d = (case v of Some x \<Rightarrow> x | None \<Rightarrow> d)"

definition or_keep :: "'a option \<Rightarrow> 'a option \<Rightarrow> 'a option" where
  "or_keep v d = (case v of Some x \<Rightarrow> Some x | None \<Rightarrow> d)"

text \<open>
  Modelled from the spec: the merge of the fields of a partial message into a message,
  which the history store's \<^verbatim>\<open>updateMessage\<close> applies (the hook
  \<^verbatim>\<open>useChatInfiniteScroll\<close> is not among the sources); section 4.2, "applies an in-place
  edit (e.g. changed content) to an existing message".
\<close>

definition apply_patch :: "message_patch \<Rightarrow> chat_message \<Rightarrow> chat_message" where
  "apply_patch p m = \<lparr>msg_id = or_else (p_id p) (msg_id m),
     tempId = or_keep (p_tempId p) (tempId m),
     courseId = or_else (p_courseId p) (courseId m),
     content = or_else (p_content p) (content m),
     msg_type = or_else (p_type p) (msg_type m),
     senderId = or_else (p_senderId p) (senderId m),
     senderName = or_else (p_senderName p) (senderName m),
     senderThumbnailUrl = or_keep (p_senderThumbnailUrl p) (senderThumbnailUrl m),
     senderRole = or_else (p_senderRole p) (senderRole m),
     createdAt = or_else (p_createdAt p) (createdAt m),
     status = or_keep (p_status p) (status m)\<rparr>"

text \<open>
  Modelled from the spec: \<^verbatim>\<open>updateMessage\<close> of the history store (the hook
  \<^verbatim>\<open>useChatInfiniteScroll\<close> is not among the sources); section 4.2, "patch(id,
  partialFields): applies an in-place edit to an existing message; no-op if id absent".
\<close>

definition updateInfiniteScrollMessage ::
  "string \<Rightarrow> message_patch \<Rightarrow> chat_message list \<Rightarrow> chat_message list" where
  "updateInfiniteScrollMessage messageId p window =
     map (\<lambda>m. if msg_id m = messageId then apply_patch p m else m) window"

text \<open>
  Modelled from the spec: \<^verbatim>\<open>removeMessage\<close> of the history store (the hook
  \<^verbatim>\<open>useChatInfiniteScroll\<close> is not among the sources); section 4.2, "remove(id): deletes
  a message from the window by id; no-op if absent".
\<close>

definition removeMessage :: "string \<Rightarrow> chat_message list \<Rightarrow> chat_message list" where
  "removeMessage messageId window = filter (\<lambda>m. msg_id m \<noteq> messageId) window"

text \<open>
  Modelled from the spec: \<^verbatim>\<open>removeMessage\<close> of the live buffer (the hook
  \<^verbatim>\<open>useChatWebSocket\<close> is not among the sources); section 4.5, "remove from the live
  buffer".
\<close>

definition removeWSMessage :: "string \<Rightarrow> chat_message list \<Rightarrow> chat_message list" where
  "removeWSMessage messageId buffer = filter (\<lambda>m. msg_id m \<noteq> messageId) buffer"

text \<open>
  Modelled from the spec: \<^verbatim>\<open>addNewMessage\<close> of the history store (the hook
  \<^verbatim>\<open>useChatInfiniteScroll\<close> is not among the sources); section 4.2, "upsertLive(message):
  inserts a message arriving from the transport; if its id already exists, this is a
  no-op", into a window that is kept newest first.
\<close>

definition addNewMessage :: "chat_message \<Rightarrow> chat_message list \<Rightarrow> chat_message list" where
  "addNewMessage m window =
     (if msg_id m \<in> set (map msg_id window) then window else m # window)"

subsection \<open>Sending\<close>

text \<open>
  An \<^verbatim>\<open>async\<close> handler is two functions: what it does up to its \<^verbatim>\<open>await\<close>, with the
  request it issues there as an effect, and what it does when the awaited call has
  returned or thrown, on the state the component has by then. A handler that returns
  before its \<^verbatim>\<open>await\<close> issues no request and has no second part.

  \<^verbatim>\<open>handleSendMessage\<close>, lines 277-301. \<^verbatim>\<open>convertEmojiToText\<close> comes from a hook that is
  not among the sources and is a parameter; \<open>newId\<close> is the result of \<^verbatim>\<open>uuidv4()\<close> and
  \<open>now\<close> the clock.
\<close>

definition optimisticMessage :: "chat_env \<Rightarrow> string \<Rightarrow> int \<Rightarrow> js_text \<Rightarrow> chat_message" where
  "optimisticMessage env newId now contentToSend =
     \<lparr>msg_id = newId, tempId = Some newId, courseId = env_courseId env,
      content = contentToSend, msg_type = ''TEXT'', senderId = currentUserId env,
      senderName = (case userName env of
                      Some n \<Rightarrow> if n = [] then ''You'' else n | None \<Rightarrow> ''You''),
      senderThumbnailUrl = (case userThumbnailUrl env of
                      Some u \<Rightarrow> if u = [] then None else Some u | None \<Rightarrow> None),
      senderRole = ''STUDENT'', createdAt = now, status = Some PENDING\<rparr>"

definition handleSendMessage_start ::
  "chat_env \<Rightarrow> (js_text \<Rightarrow> js_text) \<Rightarrow> string \<Rightarrow> int \<Rightarrow> chat_state \<Rightarrow> chat_state \<times> chat_effect list" where
  "handleSendMessage_start env convertEmojiToText newId now s =
     (if trim (messageText s) = [] then (s, [])
      else let contentToSend = convertEmojiToText (trim (messageText s))
           in (s\<lparr>pendingMessages :=
                     pendingMessages s @ [optimisticMessage env newId now contentToSend],
                   shouldScrollToBottom := True,
                   messageText := [],
                   showEmojiPicker := False\<rparr>,
               [SendRequest (env_courseId env) contentToSend ''TEXT'' newId]))"

text \<open>
  Lines 311-348: \<open>Resolved serverId\<close> is a response whose \<^verbatim>\<open>data.id\<close> is \<open>serverId\<close>;
  \<open>hasTextarea\<close> says whether \<^verbatim>\<open>textareaRef.current\<close> is set.
\<close>

definition handleSendMessage_finish ::
  "string \<Rightarrow> string remote \<Rightarrow> bool \<Rightarrow> chat_state \<Rightarrow> chat_state \<times> chat_effect list" where
  "handleSendMessage_finish newId result hasTextarea s =
     (case result of
        Resolved serverId \<Rightarrow>
          (s\<lparr>pendingMessages :=
                map (\<lambda>msg. if tempId msg = Some newId
                            then msg\<lparr>msg_id := serverId, tempId := Some newId,
                                     status := Some SUCCESS\<rparr>
                            else msg)
                    (pendingMessages s)\<rparr>,
           if hasTextarea then [FocusTextarea] else [])
      | Rejected \<Rightarrow>
          (s\<lparr>pendingMessages :=
                map (\<lambda>msg. if tempId msg = Some newId then msg\<lparr>status := Some ERROR\<rparr> else msg)
                    (pendingMessages s)\<rparr>,
           [ToastError ''Failed to send message. Please try again.'']))"

subsection \<open>Editing\<close>

text \<open>\<^verbatim>\<open>handleEditMessage\<close>, lines 352-362, up to the \<^verbatim>\<open>await\<close>.\<close>

definition handleEditMessage_start ::
  "chat_env \<Rightarrow> string \<Rightarrow> chat_state \<Rightarrow> chat_state \<times> chat_effect list" where
  "handleEditMessage_start env messageId s =
     (if trim (editingText s) = [] then (s, [])
      else (s\<lparr>updatingMessages := insert messageId (updatingMessages s),
               loadedMessages :=
                 updateInfiniteScrollMessage messageId (content_patch (trim (editingText s)))
                   (loadedMessages s)\<rparr>,
            [UpdateRequest (env_courseId env) messageId ''TEXT'' (trim (editingText s))]))"

text \<open>
  Lines 363-374. \<open>Resolved d\<close> is a response whose \<^verbatim>\<open>data\<close> is \<open>d\<close> (\<open>None\<close> when the
  response carries none: \<^verbatim>\<open>result?.data\<close> is falsy).
\<close>

definition handleEditMessage_finish ::
  "string \<Rightarrow> chat_message option remote \<Rightarrow> chat_state \<Rightarrow> chat_state \<times> chat_effect list" where
  "handleEditMessage_finish messageId result s =
     (case result of
        Resolved d \<Rightarrow>
          (s\<lparr>editingMessageId := None,
             editingText := [],
             loadedMessages :=
               (case d of
                  Some m \<Rightarrow> updateInfiniteScrollMessage messageId (patch_of_message m)
                              (loadedMessages s)
                | None \<Rightarrow> loadedMessages s),
             updatingMessages := updatingMessages s - {messageId}\<rparr>,
           [])
      | Rejected \<Rightarrow>
          (s\<lparr>updatingMessages := updatingMessages s - {messageId}\<rparr>,
           [ToastError ''Failed to update message. Please try again.'']))"

subsection \<open>Deleting\<close>

text \<open>\<^verbatim>\<open>handleDeleteMessage\<close>, lines 378-382, up to the \<^verbatim>\<open>await\<close>.\<close>

definition handleDeleteMessage_start ::
  "chat_env \<Rightarrow> string \<Rightarrow> chat_state \<Rightarrow> chat_state \<times> chat_effect list" where
  "handleDeleteMessage_start env messageId s =
     (s\<lparr>deletingMessages := insert messageId (deletingMessages s)\<rparr>,
      [DeleteRequest (env_courseId env) messageId])"

text \<open>Lines 384-406.\<close>

definition handleDeleteMessage_finish ::
  "string \<Rightarrow> unit remote \<Rightarrow> chat_state \<Rightarrow> chat_state \<times> chat_effect list" where
  "handleDeleteMessage_finish messageId result s =
     (case result of
        Resolved u \<Rightarrow>
          (s\<lparr>loadedMessages := removeMessage messageId (loadedMessages s),
             wsMessages := removeWSMessage messageId (wsMessages s),
             deletedMessages := insert messageId (deletedMessages s),
             deletingMessages := deletingMessages s - {messageId}\<rparr>,
           [])
      | Rejected \<Rightarrow>
          (s\<lparr>deletingMessages := deletingMessages s - {messageId}\<rparr>,
           [ToastError ''Failed to delete message. Please try again.'']))"

subsection \<open>The events of one conversation\<close>

text \<open>
  Line 119, the \<^verbatim>\<open>onReconnect\<close> callback given to the transport hook.
\<close>

definition onReconnect :: "chat_state \<Rightarrow> chat_state" where
  "onReconnect s =
     s\<lparr>pendingMessages := filter (\<lambda>p. status p \<noteq> Some SUCCESS) (pendingMessages s)\<rparr>"

text \<open>
  Lines 196-204, the effect that runs when the live buffer has changed: the last live
  message, if it has an id, is handed to the history store.
\<close>

definition wsMessages_effect :: "chat_state \<Rightarrow> chat_state" where
  "wsMessages_effect s =
     (if wsMessages s \<noteq> [] \<and> msg_id (last (wsMessages s)) \<noteq> []
      then s\<lparr>loadedMessages := addNewMessage (last (wsMessages s)) (loadedMessages s),
              shouldScrollToBottom := True\<rparr>
      else s)"

text \<open>
  What can happen to the component while one conversation is open: the two parts of each
  handler, the reconnect callback, and the hooks handing over a new history window (a
  page was loaded) or a new live buffer (a push arrived, also a stale one), after which
  the effect above runs. The hooks' arrays are arbitrary here.
\<close>

datatype chat_event =
    SendStart string int
  | SendFinish string "string remote" bool
  | EditStart string
  | EditFinish string "chat_message option remote"
  | DeleteStart string
  | DeleteFinish string "unit remote"
  | Reconnected
  | HistoryChanged "chat_message list"
  | LiveChanged "chat_message list"

fun chat_step :: "chat_env \<Rightarrow> (js_text \<Rightarrow> js_text) \<Rightarrow> chat_event \<Rightarrow> chat_state \<Rightarrow> chat_state" where
  "chat_step env conv (SendStart newId now) s = fst (handleSendMessage_start env conv newId now s)"
| "chat_step env conv (SendFinish newId r t) s = fst (handleSendMessage_finish newId r t s)"
| "chat_step env conv (EditStart messageId) s = fst (handleEditMessage_start env messageId s)"
| "chat_step env conv (EditFinish messageId r) s = fst (handleEditMessage_finish messageId r s)"
| "chat_step env conv (DeleteStart messageId) s = fst (handleDeleteMessage_start env messageId s)"
| "chat_step env conv (DeleteFinish messageId r) s = fst (handleDeleteMessage_finish messageId r s)"
| "chat_step env conv Reconnected s = onReconnect s"
| "chat_step env conv (HistoryChanged h) s = s\<lparr>loadedMessages := h\<rparr>"
| "chat_step env conv (LiveChanged w) s = wsMessages_effect (s\<lparr>wsMessages := w\<rparr>)"

definition chat_run :: "chat_env \<Rightarrow> (js_text \<Rightarrow> js_text) \<Rightarrow> chat_event list \<Rightarrow> chat_state \<Rightarrow> chat_state" where
  "chat_run env conv evs s = foldl (\<lambda>st ev. chat_step env conv ev st) s evs"

section \<open>The transport session: \<^verbatim>\<open>WebSocketService\<close>\<close>

text \<open>
  The fields of the service. Of the STOMP client the service holds, the model keeps what
  the code reads and writes: the library's \<^verbatim>\<open>connected\<close> flag; which function its
  \<^verbatim>\<open>onDisconnect\<close> property holds, the one \<^verbatim>\<open>connect\<close> installs (lines 60-81) or the one
  \<^verbatim>\<open>disconnect\<close> puts in its place (lines 206-213); the \<^verbatim>\<open>reconnectDelay\<close> the client is
  created with (line 37); and whether it is active, that is, \<^verbatim>\<open>activate()\<close> was called
  on it (line 89) and \<^verbatim>\<open>deactivate()\<close> (line 214) was not. \<open>subscription\<close> holds the
  destination of the subscription object.
\<close>

datatype disconnect_handler = AutoReconnect | Teardown

record stomp_client =
  connected :: bool
  onDisconnect_of :: disconnect_handler
  reconnectDelay :: nat
  active :: bool

record ws_config =
  baseUrl :: string
  token :: string
  cfg_courseId :: string
  userId :: "string option"

record ws_service =
  client :: "stomp_client option"
  config :: "ws_config option"
  isConnected :: bool
  subscription :: "string option"
  ws_currentUserId :: "string option"
  reconnectAttempts :: nat

definition maxReconnectAttempts :: nat where
  "maxReconnectAttempts = 5"

text \<open>
  What a method or callback does outside the fields: toasts, the callbacks of the
  configuration, calls into the STOMP client, the timer it sets (with its delay in
  milliseconds), the asynchronous wait it starts, and the settling of the promise that
  \<^verbatim>\<open>connect\<close> or \<^verbatim>\<open>disconnect\<close> returned. A promise that no effect settles stays pending.
  \<open>Client_retry\<close> is the one effect that is not the service's own: the reconnect the
  STOMP client schedules for itself, with its delay.
\<close>

datatype ws_effect =
    Toast_error string
  | Cfg_onConnect
  | Cfg_onError
  | Cfg_onDisconnect
  | Cfg_onReconnect
  | Activate
  | Deactivate
  | Unsubscribe
  | Subscribe string
  | Wait_for_stomp string
  | Set_timeout nat
  | Resolve_connect
  | Reject_connect string
  | Resolve_disconnect
  | Unhandled_rejection
  | Client_retry nat

definition initial_service :: ws_service where
  "initial_service = \<lparr>client = None, config = None, isConnected = False,
     subscription = None, ws_currentUserId = None, reconnectAttempts = 0\<rparr>"

text \<open>
  \<^verbatim>\<open>connect\<close>, lines 22-95, up to the return of the promise. \<open>thrown\<close> is the message of
  an error thrown while the socket is created, if one is.
\<close>

definition connect :: "ws_config \<Rightarrow> string option \<Rightarrow> ws_service \<Rightarrow> ws_service \<times> ws_effect list" where
  "connect cfg thrown s =
     (let s1 = s\<lparr>config := Some cfg,
                  ws_currentUserId :=
                    (case userId cfg of Some u \<Rightarrow> if u = [] then None else Some u | None \<Rightarrow> None)\<rparr>
      in case thrown of
           Some msg \<Rightarrow>
             (s1, [Toast_error ''Error connecting to WebSocket. Please try again.'',
                   Reject_connect msg])
         | None \<Rightarrow>
             (s1\<lparr>client := Some \<lparr>connected = False, onDisconnect_of = AutoReconnect,
                                     reconnectDelay = 5000, active = True\<rparr>\<rparr>,
              [Activate]))"

text \<open>
  \<^verbatim>\<open>subscribeToMessages\<close>, lines 100-130, up to its \<^verbatim>\<open>await\<close>: it returns at once without
  a client, and starts the wait otherwise.
\<close>

definition subscribeToMessages_start :: "string \<Rightarrow> ws_service \<Rightarrow> ws_service \<times> ws_effect list" where
  "subscribeToMessages_start course s =
     (if client s = None then (s, [Toast_error ''WebSocket client not initialized''])
      else (s, [Wait_for_stomp course]))"

text \<open>
  \<^verbatim>\<open>waitForStompConnected\<close>, lines 107-128: \<^verbatim>\<open>check\<close> runs once per element of the list,
  which gives the clock and the client's \<^verbatim>\<open>connected\<close> flag at that run. \<open>None\<close>: the list
  is used up and the next run is still to come.
\<close>

fun waitForStompConnected :: "int \<Rightarrow> int \<Rightarrow> (int \<times> bool) list \<Rightarrow> bool option" where
  "waitForStompConnected timeoutMs start [] = None"
| "waitForStompConnected timeoutMs start ((now, isUp) # later) =
     (if isUp then Some True
      else if now - start > timeoutMs then Some False
      else waitForStompConnected timeoutMs start later)"

text \<open>
  Lines 131-157, after the wait. \<open>subscribeThrows\<close>: the client's \<^verbatim>\<open>subscribe\<close> throws. The
  error is thrown again into the promise of \<^verbatim>\<open>subscribeToMessages\<close>, which nobody holds.
\<close>

definition subscribeToMessages_resume ::
  "string \<Rightarrow> bool \<Rightarrow> bool \<Rightarrow> ws_service \<Rightarrow> ws_service \<times> ws_effect list" where
  "subscribeToMessages_resume course isUp subscribeThrows s =
     (if \<not> isUp
      then (s, [Toast_error ''STOMP client not connected after wait - cannot subscribe''])
      else if subscribeThrows \<or> client s = None
      then (s, [Toast_error ''Error subscribing to messages. Please try again.'',
                Unhandled_rejection])
      else (s\<lparr>subscription := Some (''/topic/courses/'' @ course @ ''/messages'')\<rparr>,
            [Subscribe (''/topic/courses/'' @ course @ ''/messages'')]))"

text \<open>The callbacks \<^verbatim>\<open>connect\<close> gives the client; \<open>cfg\<close> is the configuration of that call.\<close>

definition onConnect :: "ws_config \<Rightarrow> ws_service \<Rightarrow> ws_service \<times> ws_effect list" where
  "onConnect cfg s =
     (let r = subscribeToMessages_start (cfg_courseId cfg)
                (s\<lparr>isConnected := True, reconnectAttempts := 0\<rparr>)
      in (fst r, snd r @ [Cfg_onConnect, Resolve_connect]))"

definition onStompError :: "string option \<Rightarrow> ws_service \<Rightarrow> ws_service \<times> ws_effect list" where
  "onStompError header s =
     (s\<lparr>isConnected := False\<rparr>,
      [Toast_error ''WebSocket connection error. Please try again.'', Cfg_onError,
       Reject_connect (case header of
                         Some m \<Rightarrow> if m = [] then ''WebSocket connection failed'' else m
                       | None \<Rightarrow> ''WebSocket connection failed'')])"

definition onDisconnect :: "ws_service \<Rightarrow> ws_service \<times> ws_effect list" where
  "onDisconnect s =
     (if reconnectAttempts s < maxReconnectAttempts
      then (s\<lparr>isConnected := False, subscription := None,
               reconnectAttempts := reconnectAttempts s + 1\<rparr>,
            [Cfg_onDisconnect, Set_timeout (5000 * (reconnectAttempts s + 1))])
      else (s\<lparr>isConnected := False, subscription := None\<rparr>, [Cfg_onDisconnect]))"

definition onWebSocketError :: "ws_service \<Rightarrow> ws_service \<times> ws_effect list" where
  "onWebSocketError s =
     (s, [Toast_error ''WebSocket error. Please try again.'', Cfg_onError])"

text \<open>
  Lines 69-79: the function the timer runs, and the two reactions to the promise of its
  \<^verbatim>\<open>connect\<close>.
\<close>

definition reconnectTimer :: "string option \<Rightarrow> ws_service \<Rightarrow> ws_service \<times> ws_effect list" where
  "reconnectTimer thrown s =
     (case config s of Some cfg \<Rightarrow> connect cfg thrown s | None \<Rightarrow> (s, []))"

definition reconnectTimer_then :: "ws_service \<Rightarrow> ws_service \<times> ws_effect list" where
  "reconnectTimer_then s = (s, if config s = None then [] else [Cfg_onReconnect])"

definition reconnectTimer_catch :: "ws_service \<Rightarrow> ws_service \<times> ws_effect list" where
  "reconnectTimer_catch s = (s, [Toast_error ''Reconnection failed. Please try again.''])"

text \<open>\<^verbatim>\<open>unsubscribe\<close>, lines 163-168.\<close>

definition unsubscribe :: "ws_service \<Rightarrow> ws_service \<times> ws_effect list" where
  "unsubscribe s =
     (if subscription s = None then (s, [])
      else (s\<lparr>subscription := None\<rparr>, [Unsubscribe]))"

text \<open>
  \<^verbatim>\<open>disconnect\<close>, lines 200-219, up to the return of the promise, and the function it
  puts into the client's \<^verbatim>\<open>onDisconnect\<close>.
\<close>

definition disconnect :: "ws_service \<Rightarrow> ws_service \<times> ws_effect list" where
  "disconnect s =
     (if client s \<noteq> None \<and> isConnected s
      then let r = unsubscribe s
           in ((fst r)\<lparr>client := map_option (\<lambda>c. c\<lparr>onDisconnect_of := Teardown,
                                                      active := False\<rparr>)
                                    (client (fst r))\<rparr>,
               snd r @ [Deactivate])
      else (s, [Resolve_disconnect]))"

definition onDisconnect_teardown :: "ws_service \<Rightarrow> ws_service \<times> ws_effect list" where
  "onDisconnect_teardown s =
     (s\<lparr>isConnected := False, client := None, config := None, ws_currentUserId := None,
        reconnectAttempts := 0\<rparr>,
      [Resolve_disconnect])"

text \<open>\<^verbatim>\<open>isWebSocketConnected\<close>, lines 234-236.\<close>

definition isWebSocketConnected :: "ws_service \<Rightarrow> bool" where
  "isWebSocketConnected s =
     (isConnected s \<and> (case client s of Some c \<Rightarrow> connected c | None \<Rightarrow> False))"

subsection \<open>The client's own reconnect\<close>

text \<open>
  What the option \<^verbatim>\<open>reconnectDelay: 5000\<close> of line 37 asks of the STOMP client: when the
  connection of a client is lost, or an attempt to open it fails, a client that is
  active and has a positive \<^verbatim>\<open>reconnectDelay\<close> tries again by itself after that delay.
  It does so every time; the service's counter \<open>reconnectAttempts\<close> has no part in it.
\<close>

definition client_connection_lost :: "ws_service \<Rightarrow> ws_service \<times> ws_effect list" where
  "client_connection_lost s =
     (case client s of
        None \<Rightarrow> (s, [])
      | Some c \<Rightarrow>
          (s\<lparr>client := Some (c\<lparr>connected := False\<rparr>)\<rparr>,
           if active c \<and> 0 < reconnectDelay c then [Client_retry (reconnectDelay c)] else []))"

subsection \<open>Runs of the session\<close>

text \<open>
  The events of a session that the service reacts to. \<open>Client_up\<close> is the library setting
  the \<^verbatim>\<open>connected\<close> flag of the client the service holds, \<open>ConnectionLost\<close> the loss of
  that client's connection.
\<close>

datatype ws_event =
    Connect ws_config "string option"
  | Client_up bool
  | ConnectionLost
  | OnConnect ws_config
  | OnStompError "string option"
  | OnDisconnect
  | OnWebSocketError
  | TimerFired "string option"
  | TimerThen
  | TimerCatch
  | Subscribed string bool bool
  | Disconnect
  | OnDisconnectTeardown

fun ws_step :: "ws_event \<Rightarrow> ws_service \<Rightarrow> ws_service \<times> ws_effect list" where
  "ws_step (Connect cfg thrown) s = connect cfg thrown s"
| "ws_step (Client_up b) s = (s\<lparr>client := map_option (\<lambda>c. c\<lparr>connected := b\<rparr>) (client s)\<rparr>, [])"
| "ws_step ConnectionLost s = client_connection_lost s"
| "ws_step (OnConnect cfg) s = onConnect cfg s"
| "ws_step (OnStompError header) s = onStompError header s"
| "ws_step OnDisconnect s = onDisconnect s"
| "ws_step OnWebSocketError s = onWebSocketError s"
| "ws_step (TimerFired thrown) s = reconnectTimer thrown s"
| "ws_step TimerThen s = reconnectTimer_then s"
| "ws_step TimerCatch s = reconnectTimer_catch s"
| "ws_step (Subscribed course isUp subscribeThrows) s =
     subscribeToMessages_resume course isUp subscribeThrows s"
| "ws_step Disconnect s = disconnect s"
| "ws_step OnDisconnectTeardown s = onDisconnect_teardown s"

fun ws_run :: "ws_event list \<Rightarrow> ws_service \<Rightarrow> ws_service \<times> ws_effect list" where
  "ws_run [] s = (s, [])"
| "ws_run (ev # evs) s =
     (let r = ws_step ev s; r' = ws_run evs (fst r) in (fst r', snd r @ snd r'))"

text \<open>The delays of the service's own timers among some effects, in order.\<close>

fun timeouts :: "ws_effect list \<Rightarrow> nat list" where
  "timeouts [] = []"
| "timeouts (Set_timeout d # es) = d # timeouts es"
| "timeouts (e # es) = timeouts es"

text \<open>
  An event that is neither a successful connect nor the completion of an explicit
  teardown: what a session goes through while its reconnects fail.
\<close>

fun failing :: "ws_event \<Rightarrow> bool" where
  "failing (OnConnect cfg) = False"
| "failing OnDisconnectTeardown = False"
| "failing ev = True"

fun drops :: "ws_event list \<Rightarrow> nat" where
  "drops [] = 0"
| "drops (OnDisconnect # evs) = Suc (drops evs)"
| "drops (ev # evs) = drops evs"

section \<open>The duplicate rule as the specification words it\<close>

text \<open>
  Section 4.4, step 3 and section 8 of the specification: a message supersedes a SUCCESS
  entry if it shares its id, or matches on content, sender and kind with a \<open>createdAt\<close>
  within the closed interval of ten seconds around the entry's. This definition follows
  the specification; \<open>isRealMessageOf\<close> above follows the code.
\<close>

definition spec_supersedes :: "chat_message \<Rightarrow> chat_message \<Rightarrow> bool" where
  "spec_supersedes pending msg =
     (msg_id msg = msg_id pending
      \<or> (content msg = content pending \<and> senderId msg = senderId pending
         \<and> msg_type msg = msg_type pending
         \<and> \<bar>createdAt msg - createdAt pending\<bar> \<le> 10000))"

section \<open>Example data\<close>

text \<open>
  The texts "Hi", "other", "Hello" and "Hello!"; a draft of a space, a no-break space and
  an ideographic space; and " Hello" followed by a no-break space.
\<close>

definition text_Hi :: js_text where
  "text_Hi = [0x48, 0x69]"

definition text_other :: js_text where
  "text_other = [0x6F, 0x74, 0x68, 0x65, 0x72]"

definition text_Hello :: js_text where
  "text_Hello = [0x48, 0x65, 0x6C, 0x6C, 0x6F]"

definition text_Hello_bang :: js_text where
  "text_Hello_bang = [0x48, 0x65, 0x6C, 0x6C, 0x6F, 0x21]"

definition blank_draft :: js_text where
  "blank_draft = [0x0020, 0x00A0, 0x3000]"

definition padded_Hello :: js_text where
  "padded_Hello = [0x0020, 0x48, 0x65, 0x6C, 0x6C, 0x6F, 0x00A0]"

definition example_message :: "string \<Rightarrow> int \<Rightarrow> chat_message" where
  "example_message i t =
     \<lparr>msg_id = i, tempId = None, courseId = ''c1'', content = text_Hi, msg_type = ''TEXT'',
      senderId = ''U1'', senderName = ''Ann'', senderThumbnailUrl = None,
      senderRole = ''STUDENT'', createdAt = t, status = None\<rparr>"

definition example_entry :: "string \<Rightarrow> int \<Rightarrow> msg_status \<Rightarrow> chat_message" where
  "example_entry i t st = (example_message i t)\<lparr>tempId := Some ''tmp'', status := Some st\<rparr>"

definition example_state :: chat_state where
  "example_state =
     \<lparr>messageText = blank_draft, editingMessageId = Some ''M1'', editingText = padded_Hello,
      pendingMessages = [], showEmojiPicker = False, deletingMessages = {},
      updatingMessages = {}, deletedMessages = {}, shouldScrollToBottom = False,
      isInitializing = False,
      loadedMessages = [example_message ''M1'' 2000, example_message ''M2'' 1000],
      wsMessages = [example_message ''M1'' 2000]\<rparr>"

definition example_env :: chat_env where
  "example_env = \<lparr>env_courseId = ''c1'', currentUserId = ''U1'', userName = Some ''Ann'',
     userThumbnailUrl = None\<rparr>"

definition example_config :: ws_config where
  "example_config = \<lparr>baseUrl = ''https://host'', token = ''t'', cfg_courseId = ''c1'',
     userId = Some ''U1''\<rparr>"

text \<open>A session that has connected and subscribed, and a run of failures after it.\<close>

definition example_drops :: "ws_event list" where
  "example_drops = [ConnectionLost, OnDisconnect, TimerFired None, OnStompError None,
     OnDisconnect, TimerFired None, OnWebSocketError, ConnectionLost, OnDisconnect,
     OnDisconnect, OnDisconnect, OnDisconnect, TimerFired None, OnDisconnect]"

definition example_connected :: ws_service where
  "example_connected =
     fst (ws_run [Connect example_config None, Client_up True, OnConnect example_config,
                  Subscribed ''c1'' True False] initial_service)"

definition example_exhausted :: ws_service where
  "example_exhausted = fst (ws_run example_drops example_connected)"

section \<open>Properties of the reconciler\<close>

subsection \<open>The sort\<close>

lemma insert_sorted_insort_key:
  "insert_sorted byCreatedAtDesc x ys = insort_key (\<lambda>m. - createdAt m) x ys"
  by (induction ys) (simp_all add: byCreatedAtDesc_def)

lemma js_sort_sort_key:
  "js_sort byCreatedAtDesc xs = sort_key (\<lambda>m. - createdAt m) xs"
  by (induction xs) (simp_all add: js_sort_def insert_sorted_insort_key)

lemma set_js_sort: "set (js_sort byCreatedAtDesc xs) = set xs"
  by (simp add: js_sort_sort_key)

lemmas reconciler_defs =
  allMessages_def allCombined_def combinedMessages_def pendingWithoutDuplicates_def
  hasRealMessage_def isRealMessageOf_def js_sort_def byCreatedAtDesc_def

subsection \<open>Duplicates in the live buffer\<close>

text \<open>
  C1 claims that no message id appears twice in the reconciled sequence, in particular
  when the same id occurs more than once inside the live buffer. The reconciler checks
  each live message against the ids of the history window only, so a message that the
  live buffer holds twice and the history window does not hold comes out twice: with an
  empty history window, an empty outbox and no tombstone, the live buffer
  \<open>[M1, M1]\<close> is reconciled to \<open>[M1, M1]\<close>.
\<close>

theorem allMessages_live_duplicate:
  "allMessages [] [example_message ''M1'' 1000, example_message ''M1'' 1000] [] {}
     = [example_message ''M1'' 1000, example_message ''M1'' 1000]
   \<and> \<not> distinct (map msg_id
          (allMessages [] [example_message ''M1'' 1000, example_message ''M1'' 1000] [] {}))"
  by (simp add: reconciler_defs example_message_def)

text \<open>
  What the reconciler does keep unique. When the history window, the live buffer and
  the outbox each hold an id once at most, and no PENDING or ERROR entry carries the id
  of a merged message, no id appears twice in the output: live copies of history
  messages and SUCCESS entries with a confirmed id are removed.
\<close>

lemma unshift_loop:
  "foldl (\<lambda>combined wsMsg. if P wsMsg then wsMsg # combined else combined) acc ws
     = rev (filter P ws) @ acc"
  by (induction ws arbitrary: acc) simp_all

lemma combinedMessages_eq:
  "combinedMessages loaded ws
     = rev (filter (\<lambda>m. msg_id m \<noteq> [] \<and> msg_id m \<notin> set (map msg_id loaded)) ws) @ loaded"
  unfolding combinedMessages_def by (rule unshift_loop)

lemma distinct_ids_js_sort:
  "distinct (map msg_id (js_sort byCreatedAtDesc xs)) = distinct (map msg_id xs)"
  by (simp add: js_sort_sort_key distinct_map)

lemma combinedMessages_distinct:
  assumes "distinct (map msg_id loaded)" and "distinct (map msg_id ws)"
  shows "distinct (map msg_id (combinedMessages loaded ws))"
proof -
  let ?kept = "filter (\<lambda>m. msg_id m \<noteq> [] \<and> msg_id m \<notin> set (map msg_id loaded)) ws"
  have "distinct (map msg_id ?kept)"
    using assms(2) by (rule distinct_map_filter)
  then have "distinct (map msg_id (rev ?kept))"
    by (simp only: rev_map [symmetric] distinct_rev)
  moreover have "set (map msg_id (rev ?kept)) \<inter> set (map msg_id loaded) = {}"
  proof -
    have "i \<notin> set (map msg_id loaded)" if "i \<in> set (map msg_id (rev ?kept))" for i
    proof -
      from that obtain m where "m \<in> set ?kept" and "i = msg_id m"
        by (auto simp only: set_map set_rev)
      then show ?thesis
        by simp
    qed
    then show ?thesis
      by (simp only: disjoint_iff) fast
  qed
  ultimately have "distinct (map msg_id (rev ?kept) @ map msg_id loaded)"
    using assms(1) by (simp only: distinct_append)
  then show ?thesis
    by (simp only: combinedMessages_eq map_append)
qed

lemma allMessages_distinct_ids:
  assumes "distinct (map msg_id loaded)" and "distinct (map msg_id ws)"
    and "distinct (map msg_id pendings)"
    and "\<forall>p\<in>set pendings. status p \<noteq> Some SUCCESS \<longrightarrow>
           msg_id p \<notin> set (map msg_id (combinedMessages loaded ws))"
  shows "distinct (map msg_id (allMessages loaded ws pendings deleted))"
proof -
  let ?c = "combinedMessages loaded ws"
  let ?p = "pendingWithoutDuplicates ?c pendings"
  have c: "distinct (map msg_id ?c)"
    using assms(1,2) by (rule combinedMessages_distinct)
  have p: "distinct (map msg_id ?p)"
    unfolding pendingWithoutDuplicates_def using assms(3) by (rule distinct_map_filter)
  have other: "msg_id q \<notin> set (map msg_id ?c)" if "q \<in> set ?p" for q
  proof (cases "status q = Some SUCCESS")
    case True
    with that have "\<not> hasRealMessage ?c q"
      by (simp add: pendingWithoutDuplicates_def)
    then show ?thesis
      by (auto simp: hasRealMessage_def isRealMessageOf_def list_ex_iff)
  next
    case False
    with that assms(4) show ?thesis
      by (simp add: pendingWithoutDuplicates_def)
  qed
  have "set (map msg_id ?c) \<inter> set (map msg_id ?p) = {}"
  proof -
    have "i \<notin> set (map msg_id ?c)" if "i \<in> set (map msg_id ?p)" for i
    proof -
      from that obtain q where "q \<in> set ?p" and "i = msg_id q"
        by (auto simp only: set_map)
      with other show ?thesis
        by simp
    qed
    then show ?thesis
      by (simp only: disjoint_iff) fast
  qed
  with c p have "distinct (map msg_id ?c @ map msg_id ?p)"
    by (simp only: distinct_append)
  then have "distinct (map msg_id (?c @ ?p))"
    by (simp only: map_append)
  then have "distinct (map msg_id (allCombined loaded ws pendings deleted))"
    unfolding allCombined_def by (rule distinct_map_filter)
  then show ?thesis
    by (simp only: allMessages_def distinct_ids_js_sort)
qed

subsection \<open>The order of the output\<close>

text \<open>
  C8 claims that the output is sorted by \<open>createdAt\<close> descending, that entries with equal
  \<open>createdAt\<close> are ordered by id, and that the order is therefore a function of the input
  set. The comparator looks at \<open>createdAt\<close> only. Two messages \<open>a\<close> and \<open>b\<close> with the same
  timestamp come out as \<open>[a, b]\<close> when the history window is \<open>[a, b]\<close> and as \<open>[b, a]\<close>
  when it is \<open>[b, a]\<close>: the same set of inputs, two orders, and in one of them the ids
  descend while in the other they ascend.
\<close>

theorem allMessages_tie_order_counterexample:
  "allMessages [example_message ''a'' 1000, example_message ''b'' 1000] [] [] {}
     = [example_message ''a'' 1000, example_message ''b'' 1000]
   \<and> allMessages [example_message ''b'' 1000, example_message ''a'' 1000] [] [] {}
     = [example_message ''b'' 1000, example_message ''a'' 1000]
   \<and> set [example_message ''a'' 1000, example_message ''b'' 1000]
     = set [example_message ''b'' 1000, example_message ''a'' 1000]
   \<and> createdAt (example_message ''a'' 1000) = createdAt (example_message ''b'' 1000)
   \<and> msg_id (example_message ''a'' 1000) \<noteq> msg_id (example_message ''b'' 1000)"
  by (auto simp add: reconciler_defs example_message_def)

text \<open>
  C8 as amended: the output is sorted by \<open>createdAt\<close> descending, and the entries with
  one and the same \<open>createdAt\<close> stand in the order they have in the combined sequence
  (the live messages that were kept, the history window, the outbox entries that were
  kept; tombstoned ids removed). The sort is stable and breaks no tie by id.
\<close>

theorem allMessages_sorted_stable:
  "sorted_wrt (\<lambda>a b. createdAt b \<le> createdAt a) (allMessages h w p d)
   \<and> (\<forall>t. filter (\<lambda>m. createdAt m = t) (allMessages h w p d)
          = filter (\<lambda>m. createdAt m = t) (allCombined h w p d))"
proof -
  have "sorted (map (\<lambda>m. - createdAt m) (allMessages h w p d))"
    by (simp add: allMessages_def js_sort_sort_key)
  then have desc: "sorted_wrt (\<lambda>a b. createdAt b \<le> createdAt a) (allMessages h w p d)"
    by (simp add: sorted_wrt_map)
  have "filter (\<lambda>m. createdAt m = t) (allMessages h w p d)
         = filter (\<lambda>m. createdAt m = t) (allCombined h w p d)" for t
    using sort_key_stable [of "\<lambda>m. - createdAt m" "- t" "allCombined h w p d"]
    by (simp add: allMessages_def js_sort_sort_key)
  with desc show ?thesis by blast
qed

theorem allMessages_sorted_stable_witness:
  "sorted_wrt (\<lambda>a b. createdAt b \<le> createdAt a)
     (allMessages [example_message ''a'' 1000, example_message ''b'' 2000] [] [] {})
   \<and> allMessages [example_message ''a'' 1000, example_message ''b'' 2000] [] [] {}
     = [example_message ''b'' 2000, example_message ''a'' 1000]"
proof -
  have "sorted_wrt (\<lambda>a b. createdAt b \<le> createdAt a)
     (allMessages [example_message ''a'' 1000, example_message ''b'' 2000] [] [] {})"
    using allMessages_sorted_stable
      [of "[example_message ''a'' 1000, example_message ''b'' 2000]" "[]" "[]" "{}"]
    by blast
  moreover have "allMessages [example_message ''a'' 1000, example_message ''b'' 2000] [] [] {}
     = [example_message ''b'' 2000, example_message ''a'' 1000]"
    by (simp add: reconciler_defs example_message_def)
  ultimately show ?thesis by blast
qed

subsection \<open>Outbox entries and their confirmed copies\<close>

text \<open>
  C2 claims that a SUCCESS entry is dropped from the output if and only if the merged set
  holds a message with its id, or one that matches it on content, sender and kind with
  timestamps at most ten seconds apart, the bounds included, and that PENDING and ERROR
  entries are always kept. Two things in the code differ. The code compares the
  difference with \<^verbatim>\<open>< 10000\<close>: a confirmed copy exactly ten seconds away supersedes the
  entry in the specification's words, and the entry is in the output all the same. And
  the filter of lines 177-180 removes every entry whose id is a tombstone: a SUCCESS
  entry that no merged message supersedes, and PENDING and ERROR entries, are missing
  from the output when their ids are tombstones.
\<close>

theorem outbox_entry_counterexample:
  "status (example_entry ''tmp'' 1000 SUCCESS) = Some SUCCESS
   \<and> list_ex (spec_supersedes (example_entry ''tmp'' 1000 SUCCESS)) [example_message ''S1'' 11000]
   \<and> allMessages [example_message ''S1'' 11000] [] [example_entry ''tmp'' 1000 SUCCESS] {}
       = [example_message ''S1'' 11000, example_entry ''tmp'' 1000 SUCCESS]
   \<and> \<not> list_ex (spec_supersedes (example_entry ''S2'' 50000 SUCCESS)) [example_message ''S1'' 11000]
   \<and> allMessages [example_message ''S1'' 11000] [] [example_entry ''S2'' 50000 SUCCESS] {''S2''}
       = [example_message ''S1'' 11000]
   \<and> allMessages [] [] [example_entry ''t1'' 1000 PENDING, example_entry ''t2'' 900 ERROR]
        {''t1'', ''t2''} = []"
  by (simp add: reconciler_defs example_message_def example_entry_def spec_supersedes_def text_Hi_def)

lemma pendingWithoutDuplicates_eq:
  "pendingWithoutDuplicates combined pendings =
     filter (\<lambda>p. status p \<noteq> Some SUCCESS
               \<or> (\<forall>m\<in>set combined. msg_id m \<noteq> msg_id p
                     \<and> (content m = content p \<and> senderId m = senderId p
                          \<and> msg_type m = msg_type p
                        \<longrightarrow> 10000 \<le> \<bar>createdAt m - createdAt p\<bar>)))
            pendings"
  unfolding pendingWithoutDuplicates_def hasRealMessage_def isRealMessageOf_def list_ex_iff
  by (rule filter_cong) (auto simp: not_less)

text \<open>
  C2 as amended. The output is the sorted sequence of the merged messages and of the
  outbox entries that are not SUCCESS or that no merged message supersedes, all without
  the tombstoned ids; a merged message supersedes an entry when it has its id, or
  matches it on content, sender and kind with a timestamp less than ten seconds away
  (the open interval). For an outbox entry whose id is not a tombstone: a PENDING or
  ERROR entry is always in the output; a SUCCESS entry (one that is not itself a message
  of the merged set) is missing from the output if and only if a merged message
  supersedes it. So a message ten or eleven seconds away, or of another sender, never
  drops the entry.
\<close>

theorem outbox_entries_in_output:
  "allMessages h w ps d =
     js_sort byCreatedAtDesc
       (filter (\<lambda>m. msg_id m \<notin> d)
          (combinedMessages h w
           @ filter (\<lambda>p. status p \<noteq> Some SUCCESS
                       \<or> (\<forall>m\<in>set (combinedMessages h w). msg_id m \<noteq> msg_id p
                             \<and> (content m = content p \<and> senderId m = senderId p
                                  \<and> msg_type m = msg_type p
                                \<longrightarrow> 10000 \<le> \<bar>createdAt m - createdAt p\<bar>)))
                    ps))
   \<and> (\<forall>p\<in>set ps. msg_id p \<notin> d \<and> status p \<noteq> Some SUCCESS
          \<longrightarrow> p \<in> set (allMessages h w ps d))
   \<and> (\<forall>p\<in>set ps. msg_id p \<notin> d \<and> p \<notin> set (combinedMessages h w)
                    \<and> status p = Some SUCCESS
          \<longrightarrow> (p \<notin> set (allMessages h w ps d)
               \<longleftrightarrow> (\<exists>m\<in>set (combinedMessages h w). msg_id m = msg_id p
                       \<or> (content m = content p \<and> senderId m = senderId p
                           \<and> msg_type m = msg_type p
                           \<and> \<bar>createdAt m - createdAt p\<bar> < 10000))))"
proof -
  have eq: "allMessages h w ps d =
     js_sort byCreatedAtDesc
       (filter (\<lambda>m. msg_id m \<notin> d)
          (combinedMessages h w
           @ filter (\<lambda>p. status p \<noteq> Some SUCCESS
                       \<or> (\<forall>m\<in>set (combinedMessages h w). msg_id m \<noteq> msg_id p
                             \<and> (content m = content p \<and> senderId m = senderId p
                                  \<and> msg_type m = msg_type p
                                \<longrightarrow> 10000 \<le> \<bar>createdAt m - createdAt p\<bar>)))
                    ps))"
    by (simp only: allMessages_def allCombined_def pendingWithoutDuplicates_eq)
  have mem: "p \<in> set (allMessages h w ps d) \<longleftrightarrow>
       msg_id p \<notin> d \<and> (p \<in> set (combinedMessages h w)
          \<or> (p \<in> set ps \<and> (status p \<noteq> Some SUCCESS
               \<or> (\<forall>m\<in>set (combinedMessages h w). msg_id m \<noteq> msg_id p
                     \<and> (content m = content p \<and> senderId m = senderId p
                          \<and> msg_type m = msg_type p
                        \<longrightarrow> 10000 \<le> \<bar>createdAt m - createdAt p\<bar>)))))" for p
    unfolding eq set_js_sort by auto
  have kept: "\<forall>p\<in>set ps. msg_id p \<notin> d \<and> status p \<noteq> Some SUCCESS
          \<longrightarrow> p \<in> set (allMessages h w ps d)"
    by (simp add: mem)
  have dropped: "\<forall>p\<in>set ps. msg_id p \<notin> d \<and> p \<notin> set (combinedMessages h w)
                    \<and> status p = Some SUCCESS
          \<longrightarrow> (p \<notin> set (allMessages h w ps d)
               \<longleftrightarrow> (\<exists>m\<in>set (combinedMessages h w). msg_id m = msg_id p
                       \<or> (content m = content p \<and> senderId m = senderId p
                           \<and> msg_type m = msg_type p
                           \<and> \<bar>createdAt m - createdAt p\<bar> < 10000)))"
    unfolding mem by (auto simp: not_le)
  from eq kept dropped show ?thesis
    by (intro conjI)
qed

theorem outbox_entries_in_output_witness:
  "allMessages [example_message ''S1'' 10999] []
     [example_entry ''t1'' 1000 SUCCESS, example_entry ''t2'' 999 SUCCESS,
      example_entry ''t3'' 500 PENDING, example_entry ''t4'' 400 ERROR,
      (example_entry ''t5'' 1000 SUCCESS)\<lparr>senderId := ''U2''\<rparr>,
      example_entry ''t6'' 20998 SUCCESS, example_entry ''t7'' 20999 SUCCESS,
      example_entry ''t8'' 21999 SUCCESS,
      (example_entry ''S1'' 0 SUCCESS)\<lparr>content := text_other\<rparr>,
      example_entry ''t9'' 300 PENDING] {''t9''}
   = [example_entry ''t8'' 21999 SUCCESS, example_entry ''t7'' 20999 SUCCESS,
      example_message ''S1'' 10999,
      (example_entry ''t5'' 1000 SUCCESS)\<lparr>senderId := ''U2''\<rparr>,
      example_entry ''t2'' 999 SUCCESS,
      example_entry ''t3'' 500 PENDING, example_entry ''t4'' 400 ERROR]"
  unfolding conjunct1 [OF outbox_entries_in_output [of "[example_message ''S1'' 10999]" "[]"]]
  by (simp add: combinedMessages_def js_sort_def byCreatedAtDesc_def
      example_message_def example_entry_def text_Hi_def text_other_def)

section \<open>Properties of the chat component\<close>

subsection \<open>Tombstones\<close>

lemma chat_step_tombstones:
  "deletedMessages s \<subseteq> deletedMessages (chat_step env conv ev s)"
  by (cases ev)
     (auto simp: handleSendMessage_start_def handleSendMessage_finish_def
        handleEditMessage_start_def handleEditMessage_finish_def
        handleDeleteMessage_start_def handleDeleteMessage_finish_def onReconnect_def
        wsMessages_effect_def Let_def split: remote.splits)

lemma chat_run_tombstones:
  "deletedMessages s \<subseteq> deletedMessages (chat_run env conv evs s)"
  unfolding chat_run_def
proof (induction evs arbitrary: s)
  case Nil
  show ?case by simp
next
  case (Cons ev evs)
  have "deletedMessages s \<subseteq> deletedMessages (chat_step env conv ev s)"
    by (rule chat_step_tombstones)
  also have "\<dots> \<subseteq> deletedMessages (foldl (\<lambda>st ev. chat_step env conv ev st) (chat_step env conv ev s) evs)"
    by (rule Cons.IH)
  finally show ?case by simp
qed

lemma tombstone_filters:
  "mid \<in> d \<Longrightarrow> \<not> list_ex (\<lambda>m. msg_id m = mid) (allMessages h w p d)"
  by (auto simp: allMessages_def set_js_sort allCombined_def list_ex_iff)

text \<open>
  C3: when a delete of the id \<open>mid\<close> has succeeded, \<open>mid\<close> is in the tombstone set; it
  stays there through every later event of the conversation (sends, edits, deletes,
  reconnects, and any new history window or live buffer the hooks hand over, such as a
  stale broadcast of \<open>mid\<close>), and the reconciled sequence of every later state has no
  entry with the id \<open>mid\<close>. The reconciler drops every entry whose id is a tombstone,
  whatever the history window, the live buffer and the outbox hold. (The tombstones are
  cleared when the component is given another conversation, line 211; the events here
  are those of one conversation.)
\<close>

theorem tombstone_excludes_deleted:
  "mid \<in> deletedMessages (fst (handleDeleteMessage_finish mid (Resolved ()) s))
   \<and> (\<forall>evs. mid \<in> deletedMessages
               (chat_run env conv evs (fst (handleDeleteMessage_finish mid (Resolved ()) s)))
          \<and> \<not> list_ex (\<lambda>m. msg_id m = mid)
               (allMessages_of
                  (chat_run env conv evs (fst (handleDeleteMessage_finish mid (Resolved ()) s)))))
   \<and> (\<forall>h w p d. mid \<in> d \<longrightarrow> \<not> list_ex (\<lambda>m. msg_id m = mid) (allMessages h w p d))"
proof -
  let ?s = "fst (handleDeleteMessage_finish mid (Resolved ()) s)"
  have a: "mid \<in> deletedMessages ?s"
    by (simp add: handleDeleteMessage_finish_def)
  have b: "mid \<in> deletedMessages (chat_run env conv evs ?s)" for evs
    using a chat_run_tombstones [of ?s env conv evs] by blast
  have c: "\<not> list_ex (\<lambda>m. msg_id m = mid) (allMessages_of (chat_run env conv evs ?s))" for evs
    unfolding allMessages_of_def by (rule tombstone_filters) (rule b)
  from a b c tombstone_filters show ?thesis by blast
qed

theorem tombstone_excludes_deleted_witness:
  "''M1'' \<in> deletedMessages (fst (handleDeleteMessage_finish ''M1'' (Resolved ()) example_state))
   \<and> \<not> list_ex (\<lambda>m. msg_id m = ''M1'')
        (allMessages_of
           (chat_run example_env (\<lambda>t. t)
              [LiveChanged [example_message ''M1'' 2000],
               HistoryChanged [example_message ''M1'' 2000, example_message ''M2'' 1000]]
              (fst (handleDeleteMessage_finish ''M1'' (Resolved ()) example_state))))
   \<and> allMessages_of
        (chat_run example_env (\<lambda>t. t)
           [LiveChanged [example_message ''M1'' 2000],
            HistoryChanged [example_message ''M1'' 2000, example_message ''M2'' 1000]]
           (fst (handleDeleteMessage_finish ''M1'' (Resolved ()) example_state)))
       = [example_message ''M2'' 1000]"
proof -
  have "allMessages_of
        (chat_run example_env (\<lambda>t. t)
           [LiveChanged [example_message ''M1'' 2000],
            HistoryChanged [example_message ''M1'' 2000, example_message ''M2'' 1000]]
           (fst (handleDeleteMessage_finish ''M1'' (Resolved ()) example_state)))
       = [example_message ''M2'' 1000]"
    by (simp add: allMessages_of_def chat_run_def handleDeleteMessage_finish_def
        example_state_def removeMessage_def removeWSMessage_def reconciler_defs
        example_message_def wsMessages_effect_def addNewMessage_def)
  with tombstone_excludes_deleted [of "''M1''" example_state example_env "\<lambda>t. t"] show ?thesis
    by blast
qed

subsection \<open>Deleting\<close>

text \<open>
  C4: up to its \<^verbatim>\<open>await\<close>, the delete handler leaves the history window, the live buffer
  and the tombstone set as they are and issues the delete request. When the call has
  succeeded, the message is removed from the history window and from the live buffer
  (neither holds the id any more) and the id is added to the tombstone set. When the
  call has failed, all three are left as they are and an error toast is shown.
\<close>

theorem handleDeleteMessage_gated:
  "loadedMessages (fst (handleDeleteMessage_start env mid s)) = loadedMessages s
   \<and> wsMessages (fst (handleDeleteMessage_start env mid s)) = wsMessages s
   \<and> deletedMessages (fst (handleDeleteMessage_start env mid s)) = deletedMessages s
   \<and> snd (handleDeleteMessage_start env mid s) = [DeleteRequest (env_courseId env) mid]
   \<and> loadedMessages (fst (handleDeleteMessage_finish mid (Resolved ()) s'))
       = removeMessage mid (loadedMessages s')
   \<and> wsMessages (fst (handleDeleteMessage_finish mid (Resolved ()) s'))
       = removeWSMessage mid (wsMessages s')
   \<and> \<not> list_ex (\<lambda>m. msg_id m = mid)
         (loadedMessages (fst (handleDeleteMessage_finish mid (Resolved ()) s'))
          @ wsMessages (fst (handleDeleteMessage_finish mid (Resolved ()) s')))
   \<and> deletedMessages (fst (handleDeleteMessage_finish mid (Resolved ()) s'))
       = insert mid (deletedMessages s')
   \<and> loadedMessages (fst (handleDeleteMessage_finish mid Rejected s')) = loadedMessages s'
   \<and> wsMessages (fst (handleDeleteMessage_finish mid Rejected s')) = wsMessages s'
   \<and> deletedMessages (fst (handleDeleteMessage_finish mid Rejected s')) = deletedMessages s'
   \<and> snd (handleDeleteMessage_finish mid Rejected s')
       = [ToastError ''Failed to delete message. Please try again.'']"
  by (auto simp add: handleDeleteMessage_start_def handleDeleteMessage_finish_def
      removeMessage_def removeWSMessage_def list_ex_iff)

theorem handleDeleteMessage_gated_witness:
  "loadedMessages (fst (handleDeleteMessage_start example_env ''M1'' example_state))
     = [example_message ''M1'' 2000, example_message ''M2'' 1000]
   \<and> loadedMessages (fst (handleDeleteMessage_finish ''M1'' (Resolved ())
        (fst (handleDeleteMessage_start example_env ''M1'' example_state))))
     = [example_message ''M2'' 1000]
   \<and> wsMessages (fst (handleDeleteMessage_finish ''M1'' (Resolved ())
        (fst (handleDeleteMessage_start example_env ''M1'' example_state)))) = []
   \<and> deletedMessages (fst (handleDeleteMessage_finish ''M1'' (Resolved ())
        (fst (handleDeleteMessage_start example_env ''M1'' example_state)))) = {''M1''}
   \<and> loadedMessages (fst (handleDeleteMessage_finish ''M1'' Rejected
        (fst (handleDeleteMessage_start example_env ''M1'' example_state))))
     = [example_message ''M1'' 2000, example_message ''M2'' 1000]"
  using handleDeleteMessage_gated [of example_env "''M1''" example_state
      "fst (handleDeleteMessage_start example_env ''M1'' example_state)"]
  by (simp add: example_state_def removeMessage_def removeWSMessage_def example_message_def
      handleDeleteMessage_start_def)

subsection \<open>Editing\<close>

lemma trim_example: "trim padded_Hello = text_Hello"
  by (simp add: trim_def js_whitespace_def padded_Hello_def text_Hello_def)

lemma apply_content_patch:
  "content (apply_patch (content_patch t) m) = t"
  "msg_id (apply_patch (content_patch t) m) = msg_id m"
  by (simp_all add: apply_patch_def content_patch_def no_patch_def or_else_def or_keep_def)

lemma update_content:
  "list_all (\<lambda>m. msg_id m = mid \<longrightarrow> content m = t)
     (updateInfiniteScrollMessage mid (content_patch t) window)"
  by (induction window) (simp_all add: updateInfiniteScrollMessage_def apply_content_patch)

text \<open>
  C5: for an edit with non-empty trimmed text, the history window is patched with the
  trimmed text (every message with the id has it as content) in the state in which the
  update request is issued; when the call succeeds with a payload, the window is patched
  with the payload; when it fails, an error toast is shown and the window is left as it
  is, so that after a failed call the optimistic patch is still there.
\<close>

theorem handleEditMessage_optimistic:
  "trim (editingText s) \<noteq> [] \<Longrightarrow>
     loadedMessages (fst (handleEditMessage_start env mid s))
       = updateInfiniteScrollMessage mid (content_patch (trim (editingText s))) (loadedMessages s)
     \<and> list_all (\<lambda>m. msg_id m = mid \<longrightarrow> content m = trim (editingText s))
         (loadedMessages (fst (handleEditMessage_start env mid s)))
     \<and> snd (handleEditMessage_start env mid s)
       = [UpdateRequest (env_courseId env) mid ''TEXT'' (trim (editingText s))]
     \<and> loadedMessages (fst (handleEditMessage_finish mid (Resolved (Some d)) s'))
       = updateInfiniteScrollMessage mid (patch_of_message d) (loadedMessages s')
     \<and> snd (handleEditMessage_finish mid Rejected s')
       = [ToastError ''Failed to update message. Please try again.'']
     \<and> loadedMessages (fst (handleEditMessage_finish mid Rejected s')) = loadedMessages s'
     \<and> loadedMessages (fst (handleEditMessage_finish mid Rejected
          (fst (handleEditMessage_start env mid s))))
       = updateInfiniteScrollMessage mid (content_patch (trim (editingText s))) (loadedMessages s)"
  by (simp add: handleEditMessage_start_def handleEditMessage_finish_def update_content)

theorem handleEditMessage_optimistic_witness:
  "trim (editingText example_state) \<noteq> []
   \<and> loadedMessages (fst (handleEditMessage_start example_env ''M1'' example_state))
       = [(example_message ''M1'' 2000)\<lparr>content := text_Hello\<rparr>, example_message ''M2'' 1000]
   \<and> snd (handleEditMessage_start example_env ''M1'' example_state)
       = [UpdateRequest ''c1'' ''M1'' ''TEXT'' text_Hello]
   \<and> loadedMessages (fst (handleEditMessage_finish ''M1''
          (Resolved (Some ((example_message ''M1'' 2000)\<lparr>content := text_Hello_bang\<rparr>)))
          (fst (handleEditMessage_start example_env ''M1'' example_state))))
       = [(example_message ''M1'' 2000)\<lparr>content := text_Hello_bang\<rparr>, example_message ''M2'' 1000]
   \<and> loadedMessages (fst (handleEditMessage_finish ''M1'' Rejected
          (fst (handleEditMessage_start example_env ''M1'' example_state))))
       = [(example_message ''M1'' 2000)\<lparr>content := text_Hello\<rparr>, example_message ''M2'' 1000]"
proof -
  have t: "trim (editingText example_state) = text_Hello"
    by (simp add: example_state_def trim_example)
  then have h: "trim (editingText example_state) \<noteq> []"
    by (simp add: text_Hello_def)
  have l: "loadedMessages example_state
      = [example_message ''M1'' 2000, example_message ''M2'' 1000]"
    by (simp add: example_state_def)
  show ?thesis
    using h handleEditMessage_optimistic [OF h, of example_env "''M1''"
        "(example_message ''M1'' 2000)\<lparr>content := text_Hello_bang\<rparr>"
        "fst (handleEditMessage_start example_env ''M1'' example_state)"]
    by (simp add: t l example_env_def updateInfiniteScrollMessage_def apply_patch_def
        content_patch_def no_patch_def patch_of_message_def or_else_def or_keep_def
        example_message_def)
qed

subsection \<open>Sending\<close>

lemma trim_whitespace: "list_all js_whitespace t \<Longrightarrow> trim t = []"
proof -
  assume "list_all js_whitespace t"
  then have "dropWhile js_whitespace t = []"
    by (simp add: list_all_iff)
  then show ?thesis
    by (simp only: trim_def rev.simps dropWhile.simps)
qed

text \<open>
  C10: when the draft is empty or consists of white space only, the send handler returns
  at once: the state of the component is unchanged (no entry is added to the outbox) and
  no send request is issued.
\<close>

theorem handleSendMessage_blank_noop:
  "list_all js_whitespace (messageText s) \<Longrightarrow>
     handleSendMessage_start env conv newId now s = (s, [])"
  by (simp add: handleSendMessage_start_def trim_whitespace)

theorem handleSendMessage_blank_noop_witness:
  "list_all js_whitespace (messageText example_state)
   \<and> handleSendMessage_start example_env (\<lambda>t. t) ''u1'' 5000 example_state = (example_state, [])"
proof -
  have h: "list_all js_whitespace (messageText example_state)"
    by (simp add: example_state_def blank_draft_def js_whitespace_def)
  from h handleSendMessage_blank_noop [OF h] show ?thesis by blast
qed

section \<open>Properties of the transport session\<close>

lemmas ws_defs =
  client_connection_lost_def connect_def subscribeToMessages_start_def subscribeToMessages_resume_def onConnect_def
  onStompError_def onDisconnect_def onWebSocketError_def reconnectTimer_def
  reconnectTimer_then_def reconnectTimer_catch_def unsubscribe_def disconnect_def
  onDisconnect_teardown_def

lemma timeouts_append: "timeouts (es @ fs) = timeouts es @ timeouts fs"
  by (induction es rule: timeouts.induct) simp_all

lemma drops_Cons: "drops (ev # evs) = drops [ev] + drops evs"
  by (cases ev) simp_all

lemma drops_single: "drops [ev] = (if ev = OnDisconnect then 1 else 0)"
  by (cases ev) simp_all

lemma ws_step_attempts:
  "failing ev \<Longrightarrow> reconnectAttempts s \<le> maxReconnectAttempts \<Longrightarrow>
     reconnectAttempts (fst (ws_step ev s))
       = min maxReconnectAttempts (reconnectAttempts s + drops [ev])"
  by (cases ev) (auto simp: ws_defs Let_def maxReconnectAttempts_def split: option.splits)

lemma ws_step_timeouts:
  "failing ev \<Longrightarrow> reconnectAttempts s \<le> maxReconnectAttempts \<Longrightarrow>
     timeouts (snd (ws_step ev s))
       = map (\<lambda>k. 5000 * k)
           [Suc (reconnectAttempts s) ..<
            Suc (min maxReconnectAttempts (reconnectAttempts s + drops [ev]))]"
  by (cases ev) (auto simp: ws_defs Let_def maxReconnectAttempts_def split: option.splits)

lemma ws_step_isConnected:
  "failing ev \<Longrightarrow> \<not> isConnected s \<or> ev = OnDisconnect \<Longrightarrow>
     \<not> isConnected (fst (ws_step ev s))"
  by (cases ev) (auto simp: ws_defs Let_def split: option.splits)

lemma upt_join:
  fixes lo mid hi :: nat
  assumes "lo \<le> mid" and "mid \<le> hi"
  shows "[lo..<hi] = [lo..<mid] @ [mid..<hi]"
proof -
  from assms(2) obtain n where "hi = mid + n"
    by (auto simp: le_iff_add)
  with assms(1) show ?thesis
    by (simp only: upt_add_eq_append [of lo mid n])
qed

lemma ws_run_failing:
  "list_all failing evs \<Longrightarrow> reconnectAttempts s \<le> maxReconnectAttempts \<Longrightarrow>
     reconnectAttempts (fst (ws_run evs s))
       = min maxReconnectAttempts (reconnectAttempts s + drops evs)
     \<and> timeouts (snd (ws_run evs s))
       = map (\<lambda>k. 5000 * k)
           [Suc (reconnectAttempts s) ..<
            Suc (min maxReconnectAttempts (reconnectAttempts s + drops evs))]
     \<and> (\<not> isConnected s \<or> 0 < drops evs \<longrightarrow> \<not> isConnected (fst (ws_run evs s)))"
proof (induction evs arbitrary: s)
  case Nil
  then show ?case by simp
next
  case (Cons ev evs)
  let ?s1 = "fst (ws_step ev s)"
  from Cons.prems have f: "failing ev" and fs: "list_all failing evs" by simp_all
  have a1: "reconnectAttempts ?s1 = min maxReconnectAttempts (reconnectAttempts s + drops [ev])"
    using f Cons.prems(2) by (rule ws_step_attempts)
  then have le: "reconnectAttempts ?s1 \<le> maxReconnectAttempts" by simp
  note ih = Cons.IH [OF fs le]
  have t: "timeouts (snd (ws_step ev s))
       = map (\<lambda>k. 5000 * k) [Suc (reconnectAttempts s) ..< Suc (reconnectAttempts ?s1)]"
    using ws_step_timeouts [OF f Cons.prems(2)] a1 by simp
  have m: "min maxReconnectAttempts (reconnectAttempts ?s1 + drops evs)
       = min maxReconnectAttempts (reconnectAttempts s + drops (ev # evs))"
    using a1 by (simp add: drops_Cons [of ev evs])
  have att: "reconnectAttempts (fst (ws_run (ev # evs) s))
       = min maxReconnectAttempts (reconnectAttempts s + drops (ev # evs))"
    using ih m by (simp add: Let_def)
  have lo: "Suc (reconnectAttempts s) \<le> Suc (reconnectAttempts ?s1)"
    using a1 Cons.prems(2) by simp
  have hi: "Suc (reconnectAttempts ?s1)
       \<le> Suc (min maxReconnectAttempts (reconnectAttempts ?s1 + drops evs))"
    using le by simp
  have "timeouts (snd (ws_run (ev # evs) s))
       = map (\<lambda>k. 5000 * k)
           ([Suc (reconnectAttempts s) ..< Suc (reconnectAttempts ?s1)]
            @ [Suc (reconnectAttempts ?s1) ..<
               Suc (min maxReconnectAttempts (reconnectAttempts ?s1 + drops evs))])"
    using ih t by (simp add: Let_def timeouts_append)
  also have "\<dots> = map (\<lambda>k. 5000 * k)
           [Suc (reconnectAttempts s) ..<
            Suc (min maxReconnectAttempts (reconnectAttempts ?s1 + drops evs))]"
    by (rule arg_cong [where f = "map (\<lambda>k. 5000 * k)"]) (rule upt_join [OF lo hi, symmetric])
  finally have tm: "timeouts (snd (ws_run (ev # evs) s))
       = map (\<lambda>k. 5000 * k)
           [Suc (reconnectAttempts s) ..<
            Suc (min maxReconnectAttempts (reconnectAttempts s + drops (ev # evs)))]"
    by (simp only: m)
  have con: "\<not> isConnected s \<or> 0 < drops (ev # evs) \<longrightarrow> \<not> isConnected (fst (ws_run (ev # evs) s))"
  proof
    assume h: "\<not> isConnected s \<or> 0 < drops (ev # evs)"
    show "\<not> isConnected (fst (ws_run (ev # evs) s))"
    proof (cases "\<not> isConnected s \<or> ev = OnDisconnect")
      case True
      with f have "\<not> isConnected ?s1" by (rule ws_step_isConnected)
      with ih show ?thesis by (simp add: Let_def)
    next
      case False
      with h have "0 < drops evs" by (simp add: drops_Cons [of ev evs] drops_single)
      with ih show ?thesis by (simp add: Let_def)
    qed
  qed
  from att tm con show ?case by blast
qed

lemma example_connected_eq: "example_connected = \<lparr>client = Some \<lparr>connected = True, onDisconnect_of = AutoReconnect,
     reconnectDelay = 5000, active = True\<rparr>,
   config = Some example_config, isConnected = True, subscription = Some ''/topic/courses/c1/messages'',
   ws_currentUserId = Some ''U1'', reconnectAttempts = 0\<rparr>"
  by (simp add: example_connected_def ws_defs Let_def initial_service_def example_config_def)

subsection \<open>The bound on reconnects\<close>

lemma ws_run_Cons_pair:
  "ws_run (ev # evs) s =
     (case ws_step ev s of (s1, e1) \<Rightarrow>
        (case ws_run evs s1 of (s2, e2) \<Rightarrow> (s2, e1 @ e2)))"
  by (simp add: Let_def split_def)

lemma example_exhausted_eq:
  "example_exhausted = \<lparr>client = Some \<lparr>connected = False, onDisconnect_of = AutoReconnect,
       reconnectDelay = 5000, active = True\<rparr>,
     config = Some example_config, isConnected = False, subscription = None,
     ws_currentUserId = Some ''U1'', reconnectAttempts = 5\<rparr>"
  by (simp add: example_exhausted_def example_drops_def example_connected_eq ws_defs
      ws_run_Cons_pair maxReconnectAttempts_def example_config_def del: ws_run.simps(2))

text \<open>
  C6 claims that after \<open>maxReconnectAttempts\<close> failed reconnects no further reconnect is
  ever scheduled automatically, that the session reports a persistent-disconnected
  state, and that every reconnect delay is scaled by the attempt count. Take the
  session after a run of failures that has brought the counter to the bound. When the
  connection of its client is lost again, the client, which \<^verbatim>\<open>connect\<close> created with
  \<^verbatim>\<open>reconnectDelay: 5000\<close> and which is still active, schedules a reconnect of its own,
  with the delay 5000 and not \<open>5000 * 5\<close>. And when the service's \<^verbatim>\<open>onDisconnect\<close> runs
  at the bound, all it does outside its fields is call \<^verbatim>\<open>config.onDisconnect\<close>, as it
  does on the first disconnect, where a retry is pending; \<^verbatim>\<open>isWebSocketConnected\<close>
  answers the same in both states. Nothing tells the owner that the bound is reached.
\<close>

theorem reconnect_outside_bound:
  "list_all failing example_drops
   \<and> reconnectAttempts example_exhausted = maxReconnectAttempts
   \<and> snd (ws_step ConnectionLost example_exhausted) = [Client_retry 5000]
   \<and> snd (ws_step OnDisconnect example_exhausted) = [Cfg_onDisconnect]
   \<and> snd (ws_step OnDisconnect example_connected) = [Cfg_onDisconnect, Set_timeout 5000]
   \<and> isWebSocketConnected (fst (ws_step OnDisconnect example_exhausted))
       = isWebSocketConnected (fst (ws_step OnDisconnect example_connected))"
  by (simp add: example_exhausted_eq example_connected_eq example_drops_def ws_defs
      maxReconnectAttempts_def isWebSocketConnected_def)

text \<open>
  C6 as amended, on the timers the service sets itself. Take any run of the session in
  which no connect succeeds (and no explicit teardown completes), from a state whose
  counter is within the bound. The timers that \<^verbatim>\<open>onDisconnect\<close> sets in the run have the
  delays \<open>5000 * k\<close> for the attempts \<open>k\<close> from the counter's successor up to
  \<open>maxReconnectAttempts\<close> at most, one per disconnect: each delay is scaled by the
  attempt count, and there are no more than \<open>maxReconnectAttempts\<close> of them. Once the
  counter is at \<open>maxReconnectAttempts\<close>, such a run sets no timer at all. A successful
  connect sets the counter to zero.
\<close>

theorem reconnect_bounded:
  "list_all failing evs \<Longrightarrow> reconnectAttempts s \<le> maxReconnectAttempts \<Longrightarrow>
     timeouts (snd (ws_run evs s))
       = map (\<lambda>k. 5000 * k)
           [Suc (reconnectAttempts s) ..<
            Suc (min maxReconnectAttempts (reconnectAttempts s + drops evs))]
     \<and> reconnectAttempts (fst (ws_run evs s))
       = min maxReconnectAttempts (reconnectAttempts s + drops evs)
     \<and> length (timeouts (snd (ws_run evs s))) \<le> maxReconnectAttempts
     \<and> (reconnectAttempts s = maxReconnectAttempts \<longrightarrow> timeouts (snd (ws_run evs s)) = [])
     \<and> reconnectAttempts (fst (onConnect cfg s')) = 0"
proof -
  assume a: "list_all failing evs" "reconnectAttempts s \<le> maxReconnectAttempts"
  note r = ws_run_failing [OF a]
  have "reconnectAttempts (fst (onConnect cfg s')) = 0"
    by (simp add: onConnect_def subscribeToMessages_start_def)
  moreover have "reconnectAttempts s = maxReconnectAttempts \<longrightarrow> timeouts (snd (ws_run evs s)) = []"
    using r by simp
  moreover have "length (timeouts (snd (ws_run evs s))) \<le> maxReconnectAttempts"
  proof -
    have "length (timeouts (snd (ws_run evs s)))
        = min maxReconnectAttempts (reconnectAttempts s + drops evs) - reconnectAttempts s"
      by (simp only: conjunct1 [OF conjunct2 [OF r]] length_map length_upt diff_Suc_Suc)
    then show ?thesis
      by simp
  qed
  ultimately show ?thesis using r by blast
qed

theorem reconnect_bounded_witness:
  "list_all failing example_drops
   \<and> reconnectAttempts example_connected \<le> maxReconnectAttempts
   \<and> timeouts (snd (ws_run example_drops example_connected)) = [5000, 10000, 15000, 20000, 25000]
   \<and> reconnectAttempts (fst (ws_run example_drops example_connected)) = 5"
proof -
  have f: "list_all failing example_drops"
    by (simp add: example_drops_def)
  have a: "reconnectAttempts example_connected \<le> maxReconnectAttempts"
    by (simp add: example_connected_eq)
  have d: "drops example_drops = 7"
    by (simp add: example_drops_def)
  have u: "[Suc 0 ..< 6] = [1, 2, 3, 4, 5]"
    by code_simp
  show ?thesis
    using f a reconnect_bounded [OF f a, of example_config initial_service]
    by (simp add: d u example_connected_eq maxReconnectAttempts_def)
qed

subsection \<open>The promise of \<^verbatim>\<open>connect\<close>\<close>

text \<open>
  C7 claims that the promise of \<^verbatim>\<open>connect\<close> is resolved only after the subscription is
  confirmed, and is rejected on a transport-level error and when the subscription
  cannot be confirmed within five seconds. In the code \<^verbatim>\<open>onConnect\<close> starts
  \<^verbatim>\<open>subscribeToMessages\<close> without awaiting it and resolves the promise at once: after
  \<^verbatim>\<open>connect\<close> and \<^verbatim>\<open>onConnect\<close> the promise is resolved and there is no subscription.
  When the wait then times out (the client is not connected at 0, 2500 and 5001 ms),
  a toast is shown, the subscription is still missing and nothing rejects. On a
  WebSocket error a toast is shown and the error callback runs; the promise is neither
  resolved nor rejected.
\<close>

theorem connect_resolves_unsubscribed:
  "ws_run [Connect example_config None, OnConnect example_config] initial_service
     = (\<lparr>client = Some \<lparr>connected = False, onDisconnect_of = AutoReconnect,
                         reconnectDelay = 5000, active = True\<rparr>,
         config = Some example_config, isConnected = True, subscription = None,
         ws_currentUserId = Some ''U1'', reconnectAttempts = 0\<rparr>,
        [Activate, Wait_for_stomp ''c1'', Cfg_onConnect, Resolve_connect])
   \<and> waitForStompConnected 5000 0 [(0, False), (2500, False), (5001, False)] = Some False
   \<and> ws_run [Connect example_config None, OnConnect example_config,
              Subscribed ''c1'' False False] initial_service
     = (\<lparr>client = Some \<lparr>connected = False, onDisconnect_of = AutoReconnect,
                         reconnectDelay = 5000, active = True\<rparr>,
         config = Some example_config, isConnected = True, subscription = None,
         ws_currentUserId = Some ''U1'', reconnectAttempts = 0\<rparr>,
        [Activate, Wait_for_stomp ''c1'', Cfg_onConnect, Resolve_connect,
         Toast_error ''STOMP client not connected after wait - cannot subscribe''])
   \<and> ws_run [Connect example_config None, OnWebSocketError] initial_service
     = (\<lparr>client = Some \<lparr>connected = False, onDisconnect_of = AutoReconnect,
                         reconnectDelay = 5000, active = True\<rparr>,
         config = Some example_config, isConnected = False, subscription = None,
         ws_currentUserId = Some ''U1'', reconnectAttempts = 0\<rparr>,
        [Activate, Toast_error ''WebSocket error. Please try again.'', Cfg_onError])"
  by (simp add: ws_defs Let_def initial_service_def example_config_def)

subsection \<open>Teardown and the reconnect timer\<close>

text \<open>
  C9 claims that after \<^verbatim>\<open>disconnect()\<close> has resolved no timer set earlier performs a
  reconnect, also when the connection had already dropped. From a connected and
  subscribed session: the connection drops and a timer of 5000 ms is set;
  \<^verbatim>\<open>disconnect()\<close> finds \<^verbatim>\<open>isConnected\<close> false and resolves at once, leaving the
  configuration in place; the timer then fires, finds the configuration and calls
  \<^verbatim>\<open>connect\<close>, which activates a new client.
\<close>

theorem disconnect_leaves_timer_armed:
  "ws_run [OnDisconnect, Disconnect, TimerFired None] example_connected
     = (\<lparr>client = Some \<lparr>connected = False, onDisconnect_of = AutoReconnect,
                         reconnectDelay = 5000, active = True\<rparr>,
         config = Some example_config, isConnected = False, subscription = None,
         ws_currentUserId = Some ''U1'', reconnectAttempts = 1\<rparr>,
        [Cfg_onDisconnect, Set_timeout 5000, Resolve_disconnect, Activate])"
  by (simp add: example_connected_eq ws_defs Let_def example_config_def
      maxReconnectAttempts_def)

text \<open>
  The other branch, for comparison: when \<^verbatim>\<open>disconnect()\<close> finds the session connected,
  the function it installs clears the configuration before it resolves, and a timer
  that fires afterwards does nothing.
\<close>

lemma teardown_disarms_timer:
  "client s \<noteq> None \<Longrightarrow> isConnected s \<Longrightarrow>
     snd (disconnect s) = snd (unsubscribe s) @ [Deactivate]
     \<and> snd (onDisconnect_teardown (fst (disconnect s))) = [Resolve_disconnect]
     \<and> reconnectTimer thrown (fst (onDisconnect_teardown (fst (disconnect s))))
         = (fst (onDisconnect_teardown (fst (disconnect s))), [])"
  by (simp add: disconnect_def onDisconnect_teardown_def reconnectTimer_def Let_def)

end
